theory Spec2Isabelle
  imports Complex_Main "HOL-Library.Sublist" "HOL-Library.Multiset"
begin

section \<open>Strings and arrays of the host language\<close>

text \<open>
  A JavaScript string is modelled as a \<^typ>\<open>string\<close> (a list of characters), an array as
  a list. The strings handled by the server (team names, string keywords, domains) are
  taken to be ASCII text: \<open>toLowerCase\<close> maps \<open>A\<close>..\<open>Z\<close> to \<open>a\<close>..\<open>z\<close> and leaves every
  other character alone.

  \<open>String.prototype.includes\<close> is a test for a contiguous substring,
  \<open>Array.prototype.includes\<close> a test for an equal element, \<open>Array.prototype.some\<close> a
  left-to-right search for an element satisfying the callback.
\<close>

fun str_includes :: "string \<Rightarrow> string \<Rightarrow> bool" where
  "str_includes [] w = (w = [])"
| "str_includes (c # cs) w = (prefix w (c # cs) \<or> str_includes cs w)"

fun arr_includes :: "'a list \<Rightarrow> 'a \<Rightarrow> bool" where
  "arr_includes [] v = False"
| "arr_includes (x # xs) v = (if x = v then True else arr_includes xs v)"

fun some :: "'a list \<Rightarrow> ('a \<Rightarrow> bool) \<Rightarrow> bool" where
  "some [] f = False"
| "some (x # xs) f = (if f x then True else some xs f)"

definition lower_char :: "char \<Rightarrow> char" where
  "lower_char c =
     (case map_of (zip ''ABCDEFGHIJKLMNOPQRSTUVWXYZ'' ''abcdefghijklmnopqrstuvwxyz'') c of
        None \<Rightarrow> c
      | Some l \<Rightarrow> l)"

definition toLowerCase :: "string \<Rightarrow> string" where
  "toLowerCase s = map lower_char s"

text \<open>
  \<open>s.split(' ')\<close>: the pieces of \<open>s\<close> between single occurrences of the separator. The
  empty string gives one empty piece, and two separators in a row, or one at either end,
  give an empty piece.
\<close>

fun js_split :: "string \<Rightarrow> char \<Rightarrow> string list" where
  "js_split [] sep = [[]]"
| "js_split (c # cs) sep =
     (if c = sep then [] # js_split cs sep
      else (case js_split cs sep of
              [] \<Rightarrow> [[c]]
            | w # ws \<Rightarrow> (c # w) # ws))"

text \<open>Truthiness of an optional string: \<open>undefined\<close>, \<open>null\<close> and \<open>''\<close> are falsy.\<close>

fun truthy :: "string option \<Rightarrow> bool" where
  "truthy None = False"
| "truthy (Some s) = (s \<noteq> [])"

text \<open>
  The elements of the request's \<open>keywords\<close> array are not checked by the handler, so a
  keyword is any JSON value: a string, an array, or something else (a number, a boolean,
  \<open>null\<close> or an object). The server uses a keyword only through \<open>keyword.includes(...)\<close>
  with a string literal as argument. A string has that method (substring test) and so has
  an array (\<open>xs.includes(v)\<close>: some element is the string \<open>v\<close>); on every other value the
  call throws a \<open>TypeError\<close>.
\<close>

datatype jvalue = JString string | JArray "jvalue list" | JOther

fun includes_method :: "jvalue \<Rightarrow> (string \<Rightarrow> bool) option" where
  "includes_method (JString s) = Some (\<lambda>v. str_includes s v)"
| "includes_method (JArray xs) = Some (\<lambda>v. arr_includes xs (JString v))"
| "includes_method JOther = None"

text \<open>
  A thrown error: an \<open>Error\<close> with the message the server gives it, or the engine's
  \<open>TypeError\<close> for a call of a method that is not there (the engine words its message).
\<close>

datatype error = Error string | TypeError


section \<open>Team-site matcher\<close>

text \<open>
  \<^verbatim>\<open>
  function isTeamSite(domain, teamName) {
      if (!domain) return false;
      const teamWords = teamName.toLowerCase().split(' ');
      const cleanDomain = domain.toLowerCase();
      return teamWords.some(word => cleanDomain.includes(word));
  }
  \<close>
\<close>

definition isTeamSite :: "string option \<Rightarrow> string \<Rightarrow> bool" where
  "isTeamSite domain teamName =
     (case domain of
        None \<Rightarrow> False
      | Some d \<Rightarrow>
          if d = [] then False
          else
            (let teamWords = js_split (toLowerCase teamName) (CHR '' '');
                 cleanDomain = toLowerCase d
             in some teamWords (\<lambda>word. str_includes cleanDomain word)))"


section \<open>Opportunity scorer\<close>

text \<open>
  The score is a local variable updated by a sequence of conditional statements; each
  statement is one function from the old score to the new one. The functions that look at
  the keyword are written over its \<open>includes\<close> method (\<open>inc v\<close> is
  \<open>keyword.includes(v)\<close>), and then for a keyword that is a string.
\<close>

definition ticketResellers :: "string list" where
  "ticketResellers = [''ticketmaster.com'', ''stubhub.com'', ''seatgeek.com'', ''vividseats.com'']"

definition keyword_bonuses_on :: "(string \<Rightarrow> bool) \<Rightarrow> int \<Rightarrow> int" where
  "keyword_bonuses_on inc score0 =
     (let score1 = (if inc ''first time'' \<or> inc ''what to expect''
                    then score0 + 3 else score0);
          score2 = (if inc ''parking'' then score1 + 2 else score1);
          score3 = (if inc ''tickets'' \<or> inc ''cheap''
                    then score2 + 2 else score2);
          score4 = (if inc ''seating'' then score3 + 1 else score3)
      in score4)"

definition keyword_bonuses :: "string \<Rightarrow> int \<Rightarrow> int" where
  "keyword_bonuses keyword score0 = keyword_bonuses_on (\<lambda>v. str_includes keyword v) score0"

definition rank_adjust :: "int \<Rightarrow> int \<Rightarrow> int" where
  "rank_adjust teamRank score =
     (if teamRank = -1 then score + 3
      else if teamRank > 10 then score + 2
      else if teamRank > 5 then score + 1
      else if teamRank \<le> 3 then score - 1
      else score)"

definition hasTicketResellers :: "string list \<Rightarrow> bool" where
  "hasTicketResellers competitors =
     some competitors (\<lambda>comp. some ticketResellers (\<lambda>reseller. str_includes comp reseller))"

definition calculateOpportunityScore_on :: "(string \<Rightarrow> bool) \<Rightarrow> int \<Rightarrow> string list \<Rightarrow> int" where
  "calculateOpportunityScore_on inc teamRank competitors =
     (let score = 5;
          score = keyword_bonuses_on inc score;
          score = rank_adjust teamRank score;
          score = (if hasTicketResellers competitors then score + 1 else score)
      in min (max score 3) 10)"

definition calculateOpportunityScore :: "string \<Rightarrow> int \<Rightarrow> string list \<Rightarrow> int" where
  "calculateOpportunityScore keyword teamRank competitors =
     calculateOpportunityScore_on (\<lambda>v. str_includes keyword v) teamRank competitors"


section \<open>Gap and content strategist\<close>

definition getGapType_on :: "(string \<Rightarrow> bool) \<Rightarrow> string list \<Rightarrow> string" where
  "getGapType_on inc competitors =
     (if inc ''first time'' \<or> inc ''what to expect''
      then ''First-Timer Experience Gap''
      else if inc ''parking''
      then ''Arena Information Gap''
      else if some competitors
                (\<lambda>comp. arr_includes [''ticketmaster.com'', ''stubhub.com'', ''seatgeek.com''] comp)
      then ''Ticket Reseller Dominance''
      else if inc ''seating'' \<or> inc ''arena''
      then ''Venue Experience Gap''
      else ''General Content Gap'')"

definition getGapType :: "string \<Rightarrow> string list \<Rightarrow> string" where
  "getGapType keyword competitors = getGapType_on (\<lambda>v. str_includes keyword v) competitors"

record content_suggestion =
  title :: string
  format :: string
  cta :: string

definition getContentSuggestion :: "(string \<Rightarrow> bool) \<Rightarrow> content_suggestion" where
  "getContentSuggestion inc =
     (if inc ''first time'' \<or> inc ''what to expect''
      then \<lparr>title = ''Complete First-Timer's Hockey Guide'',
            format = ''FAQ-style guide with arena tips and terminology'',
            cta = ''Buy Official Tickets''\<rparr>
      else if inc ''parking''
      then \<lparr>title = ''Ultimate Arena Parking Guide'',
            format = ''Interactive map with pricing and walking times'',
            cta = ''Reserve Parking & Tickets''\<rparr>
      else if inc ''seating''
      then \<lparr>title = ''Interactive Arena Seating Guide'',
            format = ''Visual seating chart with ice view photos'',
            cta = ''Find Your Perfect Seats''\<rparr>
      else \<lparr>title = ''Comprehensive Fan Guide'',
            format = ''Detailed FAQ with local tips'',
            cta = ''Get Tickets''\<rparr>)"

definition getLLMStrategy :: "(string \<Rightarrow> bool) \<Rightarrow> string" where
  "getLLMStrategy inc =
     (if inc ''first time'' \<or> inc ''what to expect''
      then ''Create conversational Q&A content optimized for voice search and AI assistants''
      else if inc ''parking'' \<or> inc ''seating''
      then ''Use structured data and local context for location-based AI search''
      else ''Optimize with natural language and hockey-specific terminology for AI search'')"


section \<open>The outside world: random draws and the search provider\<close>

text \<open>
  \<open>Math.random()\<close> and \<open>fetch\<close> are the two effects of the server. The world holds
  the sequence of numbers \<open>Math.random()\<close> is going to return and the answer the network
  gives to the n-th request, with a counter for each; a call reads the next one and
  advances the counter. A draw is a real number; the engine promises \<open>0 \<le> r < 1\<close>, which
  theorems that need it assume. The five-second wait between the two requests is not
  modelled.
\<close>

record serp_item =
  item_domain :: "string option"

record serp_result =
  result_items :: "serp_item list option"
  result_cost :: "real option"

record api_task =
  task_id :: "string option"
  task_result :: "serp_result list option"

record api_result =
  status_code :: int
  status_message :: string
  tasks :: "api_task list option"

record task_data =
  td_keyword :: jvalue
  location_code :: int
  language_code :: string
  device :: string

record http_request =
  url :: string
  http_method :: string
  authorization :: string
  body :: "task_data list option"

text \<open>
  What \<open>fetch\<close> followed by \<open>response.json()\<close> can do: the promise rejects (a network
  error), or a response arrives with its \<open>ok\<close> flag, status and status text, whose body
  is a provider result or is not JSON at all (\<open>None\<close>; \<open>response.json()\<close> then rejects).
\<close>

datatype fetch_outcome =
    Rejected string
  | Response bool nat string "api_result option"

record world =
  draws :: "nat \<Rightarrow> real"
  drawn :: nat
  replies :: "nat \<Rightarrow> http_request \<Rightarrow> fetch_outcome"
  fetched :: nat

definition Math_random :: "world \<Rightarrow> real \<times> world" where
  "Math_random w = (draws w (drawn w), w\<lparr>drawn := drawn w + 1\<rparr>)"

definition fetch :: "http_request \<Rightarrow> world \<Rightarrow> fetch_outcome \<times> world" where
  "fetch rq w = (replies w (fetched w) rq, w\<lparr>fetched := fetched w + 1\<rparr>)"

text \<open>Numbers inside template literals.\<close>

definition digit_char :: "nat \<Rightarrow> char" where
  "digit_char n = ''0123456789'' ! (n mod 10)"

function show_nat :: "nat \<Rightarrow> string" where
  "show_nat n = (if n < 10 then [digit_char n] else show_nat (n div 10) @ [digit_char n])"
  by pat_completeness auto
termination
  by (relation "measure (\<lambda>n. n)") auto

declare show_nat.simps [simp del]

definition show_int :: "int \<Rightarrow> string" where
  "show_int i = (if i < 0 then CHR ''-'' # show_nat (nat (- i)) else show_nat (nat i))"

fun show_opt :: "string option \<Rightarrow> string" where
  "show_opt None = ''undefined''"
| "show_opt (Some s) = s"


section \<open>External search provider client\<close>

record config =
  baseUrl :: string
  login :: "string option"
  password :: "string option"

text \<open>
  \<open>makeDataForSEORequest\<close> throws on a rejected fetch, on a response that is not \<open>ok\<close>, on
  a body that is not JSON and on a provider status code other than 20000; its own
  \<open>catch\<close> logs and rethrows. A thrown error is the \<open>Inl\<close> of the result. The Base64
  encoding of the credentials is left out of the header.
\<close>

definition fetch_request :: "config \<Rightarrow> string \<Rightarrow> task_data list \<Rightarrow> string \<Rightarrow> http_request" where
  "fetch_request cfg endpoint data meth =
     (let credentials = show_opt (login cfg) @ '':'' @ show_opt (password cfg)
      in \<lparr>url = baseUrl cfg @ endpoint,
          http_method = meth,
          authorization = ''Basic '' @ credentials,
          body = (if meth = ''POST'' then Some data else None)\<rparr>)"

definition makeDataForSEORequest ::
  "config \<Rightarrow> string \<Rightarrow> task_data list \<Rightarrow> string \<Rightarrow> world \<Rightarrow> (error + api_result) \<times> world" where
  "makeDataForSEORequest cfg endpoint data meth w =
     (let (outcome, w') = fetch (fetch_request cfg endpoint data meth) w
      in case outcome of
           Rejected msg \<Rightarrow> (Inl (Error msg), w')
         | Response ok status statusText json \<Rightarrow>
             if \<not> ok
             then (Inl (Error (''DataForSEO API error: '' @ show_nat status @ '' '' @ statusText)), w')
             else (case json of
                     None \<Rightarrow> (Inl (Error ''invalid json response body''), w')
                   | Some result \<Rightarrow>
                       if status_code result \<noteq> 20000
                       then (Inl (Error (''DataForSEO error: '' @ status_message result
                                          @ '' ('' @ show_int (status_code result) @ '')'')), w')
                       else (Inr result, w')))"

text \<open>
  What \<open>getRealSERPData\<close> hands back: \<open>null\<close> from its \<open>catch\<close>, \<open>undefined\<close> when
  control falls off the end of the function or \<open>result[0]\<close> does not exist, or the first
  result set.
\<close>

datatype serp_data = Null | Undefined | Data serp_result

text \<open>\<open>tasks && tasks[0] && tasks[0].id\<close>: the first task's identifier when all three are truthy.\<close>

definition first_task_id :: "api_result \<Rightarrow> string option" where
  "first_task_id r =
     (case tasks r of
        None \<Rightarrow> None
      | Some [] \<Rightarrow> None
      | Some (t # _) \<Rightarrow> (if truthy (task_id t) then task_id t else None))"

text \<open>\<open>tasks && tasks[0] && tasks[0].result\<close>, then \<open>result[0]\<close>.\<close>

definition first_result :: "api_result \<Rightarrow> serp_data option" where
  "first_result r =
     (case tasks r of
        None \<Rightarrow> None
      | Some [] \<Rightarrow> None
      | Some (t # _) \<Rightarrow>
          (case task_result t of
             None \<Rightarrow> None
           | Some [] \<Rightarrow> Some Undefined
           | Some (x # _) \<Rightarrow> Some (Data x)))"

text \<open>The body of the \<open>try\<close> block of \<open>getRealSERPData\<close>.\<close>

definition getRealSERPData_try :: "config \<Rightarrow> jvalue \<Rightarrow> world \<Rightarrow> (error + serp_data) \<times> world" where
  "getRealSERPData_try cfg kw w =
     (let taskData = [\<lparr>td_keyword = kw, location_code = 2840,
                       language_code = ''en'', device = ''desktop''\<rparr>];
          (taskResult, w1) =
             makeDataForSEORequest cfg ''/serp/google/organic/task_post'' taskData ''POST'' w
      in case taskResult of
           Inl e \<Rightarrow> (Inl e, w1)
         | Inr tr \<Rightarrow>
             (case first_task_id tr of
                None \<Rightarrow> (Inr Undefined, w1)
              | Some taskId \<Rightarrow>
                  (let (resultsData, w2) =
                         makeDataForSEORequest cfg (''/serp/google/organic/task_get/'' @ taskId)
                           [] ''GET'' w1
                   in case resultsData of
                        Inl e \<Rightarrow> (Inl e, w2)
                      | Inr rd \<Rightarrow>
                          (case first_result rd of
                             None \<Rightarrow> (Inr Undefined, w2)
                           | Some d \<Rightarrow> (Inr d, w2)))))"

text \<open>The whole function: the \<open>catch\<close> turns every thrown error into \<open>null\<close>.\<close>

definition getRealSERPData :: "config \<Rightarrow> jvalue \<Rightarrow> world \<Rightarrow> (error + serp_data) \<times> world" where
  "getRealSERPData cfg kw w =
     (case getRealSERPData_try cfg kw w of
        (Inl e, w') \<Rightarrow> (Inr Null, w')
      | (Inr d, w') \<Rightarrow> (Inr d, w'))"


section \<open>Simulation fallback engine\<close>

definition generateSimulatedSearchVolume :: "(string \<Rightarrow> bool) \<Rightarrow> world \<Rightarrow> int \<times> world" where
  "generateSimulatedSearchVolume inc w =
     (if inc ''tickets'' \<or> inc ''cheap''
      then (let (r, w') = Math_random w in (\<lfloor>r * 800\<rfloor> + 200, w'))
      else if inc ''first time'' \<or> inc ''what to expect''
      then (let (r, w') = Math_random w in (\<lfloor>r * 400\<rfloor> + 150, w'))
      else if inc ''parking''
      then (let (r, w') = Math_random w in (\<lfloor>r * 300\<rfloor> + 100, w'))
      else (let (r, w') = Math_random w in (\<lfloor>r * 200\<rfloor> + 50, w')))"

definition getSimulatedCompetitors :: "(string \<Rightarrow> bool) \<Rightarrow> string list" where
  "getSimulatedCompetitors inc =
     (if inc ''tickets'' then [''stubhub.com'', ''ticketmaster.com'', ''seatgeek.com'']
      else if inc ''parking'' then [''spothero.com'', ''parkwhiz.com'', ''yelp.com'']
      else if inc ''first time'' then [''reddit.com'', ''tripadvisor.com'', ''hockeyforum.com'']
      else [''reddit.com'', ''yelp.com'', ''hockeydb.com''])"

text \<open>
  \<^verbatim>\<open>const teamRank = Math.random() > 0.6 ? -1 : Math.floor(Math.random() * 10) + 1;\<close>
  The second draw is taken only when the first one is not above 0.6.
\<close>

definition simulatedTeamRank :: "world \<Rightarrow> int \<times> world" where
  "simulatedTeamRank w =
     (let (r1, w1) = Math_random w
      in if r1 > 6 / 10 then (- 1, w1)
         else (let (r2, w2) = Math_random w1 in (\<lfloor>r2 * 10\<rfloor> + 1, w2)))"

record analysis =
  keyword :: jvalue
  opportunity :: int
  gapType :: string
  teamRank :: string
  competitors :: "string list"
  contentSuggestion :: content_suggestion
  llmStrategy :: string
  searchVolume :: int
  isRealData :: bool
  cost :: real

definition showTeamRank :: "int \<Rightarrow> string" where
  "showTeamRank rank = (if rank = - 1 then ''Not found'' else CHR ''#'' # show_int rank)"

text \<open>
  \<open>createSimulatedAnalysis\<close> starts with \<open>getSimulatedCompetitors(keyword)\<close>, whose first
  statement calls \<open>keyword.includes\<close>: for a keyword without that method the function
  throws before any random number is drawn.
\<close>

definition createSimulatedAnalysis :: "jvalue \<Rightarrow> string \<Rightarrow> world \<Rightarrow> (error + analysis) \<times> world" where
  "createSimulatedAnalysis kw team w =
     (case includes_method kw of
        None \<Rightarrow> (Inl TypeError, w)
      | Some inc \<Rightarrow>
          (let comps = getSimulatedCompetitors inc;
               (rank, w1) = simulatedTeamRank w;
               (volume, w2) = generateSimulatedSearchVolume inc w1
           in (Inr \<lparr>keyword = kw,
                    opportunity = calculateOpportunityScore_on inc rank comps,
                    gapType = getGapType_on inc comps,
                    teamRank = showTeamRank rank,
                    competitors = take 3 comps,
                    contentSuggestion = getContentSuggestion inc,
                    llmStrategy = getLLMStrategy inc,
                    searchVolume = volume,
                    isRealData = False,
                    cost = 0\<rparr>, w2)))"


section \<open>Analysis orchestrator\<close>

text \<open>\<open>.filter(Boolean)\<close> on the list of domains: the absent and the empty ones go.\<close>

fun filter_Boolean :: "string option list \<Rightarrow> string list" where
  "filter_Boolean [] = []"
| "filter_Boolean (None # ds) = filter_Boolean ds"
| "filter_Boolean (Some d # ds) = (if d = [] then filter_Boolean ds else d # filter_Boolean ds)"

text \<open>
  \<^verbatim>\<open>
  let teamRank = -1;
  items.forEach((item, index) => {
      if (item.domain && isTeamSite(item.domain, teamName)) {
          teamRank = index + 1;
      }
  });
  \<close>
  The loop visits every item; \<open>index\<close> and the current \<open>teamRank\<close> are its state.
\<close>

fun forEach_teamRank :: "serp_item list \<Rightarrow> string \<Rightarrow> nat \<Rightarrow> int \<Rightarrow> int" where
  "forEach_teamRank [] team index rank = rank"
| "forEach_teamRank (item # rest) team index rank =
     forEach_teamRank rest team (index + 1)
       (if truthy (item_domain item) \<and> isTeamSite (item_domain item) team
        then int index + 1 else rank)"

definition findTeamRank :: "serp_item list \<Rightarrow> string \<Rightarrow> int" where
  "findTeamRank its team = forEach_teamRank its team 0 (- 1)"

text \<open>
  The \<open>try\<close> block of the real-data path, after the provider client has answered: a
  record from the result items, or the thrown \<open>No SERP data returned\<close>. An empty array of
  items is truthy and takes the first branch. The record's \<open>opportunity\<close> is the first
  field that looks at the keyword, so a keyword without \<open>includes\<close> throws there, before
  the search volume (simulated on this path too) is drawn.
\<close>

definition realAnalysis :: "jvalue \<Rightarrow> string \<Rightarrow> serp_data \<Rightarrow> world \<Rightarrow> (error + analysis) \<times> world" where
  "realAnalysis kw team serpData w =
     (case serpData of
        Data sd \<Rightarrow>
          (case result_items sd of
             Some its \<Rightarrow>
               (let comps = filter_Boolean (map item_domain (take 3 its));
                    rank = findTeamRank its team
                in case includes_method kw of
                     None \<Rightarrow> (Inl TypeError, w)
                   | Some inc \<Rightarrow>
                       (let (volume, w') = generateSimulatedSearchVolume inc w
                        in (Inr \<lparr>keyword = kw,
                                 opportunity = calculateOpportunityScore_on inc rank comps,
                                 gapType = getGapType_on inc comps,
                                 teamRank = showTeamRank rank,
                                 competitors = take 3 comps,
                                 contentSuggestion = getContentSuggestion inc,
                                 llmStrategy = getLLMStrategy inc,
                                 searchVolume = volume,
                                 isRealData = True,
                                 cost = (case result_cost sd of None \<Rightarrow> 0 | Some c \<Rightarrow> c)\<rparr>,
                            w')))
           | None \<Rightarrow> (Inl (Error ''No SERP data returned''), w))
      | _ \<Rightarrow> (Inl (Error ''No SERP data returned''), w))"

definition realAttempt :: "config \<Rightarrow> jvalue \<Rightarrow> string \<Rightarrow> world \<Rightarrow> (error + analysis) \<times> world" where
  "realAttempt cfg kw team w =
     (case getRealSERPData cfg kw w of
        (Inl e, w1) \<Rightarrow> (Inl e, w1)
      | (Inr serpData, w1) \<Rightarrow> realAnalysis kw team serpData w1)"

definition maxRealAnalyses :: nat where
  "maxRealAnalyses = 3"

text \<open>
  One turn of the keyword loop: the real path with its \<open>catch\<close>, or the simulation. The
  simulation is called outside the inner \<open>try\<close> (from its \<open>catch\<close> block or from the
  \<open>else\<close> branch), so what it throws leaves the loop.
\<close>

definition analyzeKeyword ::
  "config \<Rightarrow> string \<Rightarrow> jvalue \<Rightarrow> nat \<Rightarrow> world \<Rightarrow> (error + analysis) \<times> world" where
  "analyzeKeyword cfg team kw i w =
     (if i < maxRealAnalyses \<and> truthy (login cfg) \<and> truthy (password cfg)
      then (case realAttempt cfg kw team w of
              (Inr a, w1) \<Rightarrow> (Inr a, w1)
            | (Inl e, w1) \<Rightarrow> createSimulatedAnalysis kw team w1)
      else createSimulatedAnalysis kw team w)"

function keywordLoop ::
  "config \<Rightarrow> string \<Rightarrow> jvalue list \<Rightarrow> nat \<Rightarrow> analysis list \<Rightarrow> world
     \<Rightarrow> (error + analysis list) \<times> world" where
  "keywordLoop cfg team kws i acc w =
     (if i < min 5 (length kws)
      then (case analyzeKeyword cfg team (kws ! i) i w of
              (Inl e, w') \<Rightarrow> (Inl e, w')
            | (Inr a, w') \<Rightarrow> keywordLoop cfg team kws (i + 1) (acc @ [a]) w')
      else (Inr acc, w))"
  by pat_completeness auto
termination
  by (relation "measure (\<lambda>(cfg, team, kws, i, acc, w). min 5 (length kws) - i)") auto

declare keywordLoop.simps [simp del]

text \<open>
  \<open>analyses.sort((a, b) => b.opportunity - a.opportunity)\<close>. The language guarantees a
  stable sort for a consistent comparator; it is modelled by insertion from the right,
  where an element goes in front of the first one it does not have to follow.
\<close>

fun insert_by :: "('a \<Rightarrow> 'a \<Rightarrow> int) \<Rightarrow> 'a \<Rightarrow> 'a list \<Rightarrow> 'a list" where
  "insert_by cmp x [] = [x]"
| "insert_by cmp x (y # ys) = (if cmp x y \<le> 0 then x # y # ys else y # insert_by cmp x ys)"

definition array_sort :: "('a \<Rightarrow> 'a \<Rightarrow> int) \<Rightarrow> 'a list \<Rightarrow> 'a list" where
  "array_sort cmp xs = foldr (insert_by cmp) xs []"

definition by_opportunity :: "analysis \<Rightarrow> analysis \<Rightarrow> int" where
  "by_opportunity a b = opportunity b - opportunity a"

record summary =
  highOpportunity :: nat
  totalSearchVolume :: int
  realDataCount :: nat

record request =
  req_teamName :: "string option"
  req_league :: "string option"
  req_keywords :: "jvalue list option"

record response =
  success :: bool
  resp_teamName :: string
  resp_league :: "string option"
  totalKeywords :: nat
  analyses :: "analysis list"
  summary :: summary

text \<open>
  The three replies of the handler: the response with status 200, the validation
  failure with status 400 and its \<open>error\<close> text, and status 500 with the \<open>error\<close> text and
  the thrown error, whose message is sent along.
\<close>

datatype http_reply =
    Status200 response
  | Status400 string
  | Status500 string error

definition makeSummary :: "analysis list \<Rightarrow> summary" where
  "makeSummary xs =
     \<lparr>highOpportunity = length (filter (\<lambda>a. opportunity a \<ge> 7) xs),
      totalSearchVolume = foldl (\<lambda>sum a. sum + searchVolume a) 0 xs,
      realDataCount = length (filter (\<lambda>a. isRealData a) xs)\<rparr>"

text \<open>
  The handler of \<open>POST /api/analyze\<close>. The body's \<open>teamName\<close> is an optional string and
  \<open>keywords\<close> an optional array of JSON values (\<open>None\<close>: absent or not an array); an empty
  team name is falsy, an empty array is not. An error that leaves the keyword loop is
  caught by the handler's own \<open>catch\<close> and answered with status 500.
\<close>

definition analyze :: "config \<Rightarrow> request \<Rightarrow> world \<Rightarrow> http_reply \<times> world" where
  "analyze cfg req w =
     (case (req_teamName req, req_keywords req) of
        (Some team, Some kws) \<Rightarrow>
          if team = []
          then (Status400 ''Missing required fields: teamName and keywords array'', w)
          else
            (case keywordLoop cfg team kws 0 [] w of
               (Inl e, w') \<Rightarrow> (Status500 ''Analysis failed'' e, w')
             | (Inr collected, w') \<Rightarrow>
                 (let sorted = array_sort by_opportunity collected
                  in (Status200 \<lparr>success = True,
                                 resp_teamName = team,
                                 resp_league = req_league req,
                                 totalKeywords = length kws,
                                 analyses = sorted,
                                 summary = makeSummary sorted\<rparr>, w')))
      | _ \<Rightarrow> (Status400 ''Missing required fields: teamName and keywords array'', w))"


section \<open>The specification's wording\<close>

text \<open>
  The definitions of this section follow the prose of the specification, not the code;
  the theorems below compare the two.
\<close>

definition contains :: "string \<Rightarrow> string \<Rightarrow> bool" where
  "contains s w \<longleftrightarrow> sublist w s"

definition gap_type_spec :: "string \<Rightarrow> string list \<Rightarrow> string" where
  "gap_type_spec kw comps =
     (if contains kw ''first time'' \<or> contains kw ''what to expect'' then ''First-Timer Experience Gap''
      else if contains kw ''parking'' then ''Arena Information Gap''
      else if \<exists>c \<in> set comps. c = ''ticketmaster.com'' \<or> c = ''stubhub.com'' \<or> c = ''seatgeek.com''
      then ''Ticket Reseller Dominance''
      else if contains kw ''seating'' \<or> contains kw ''arena'' then ''Venue Experience Gap''
      else ''General Content Gap'')"

definition bonus :: "bool \<Rightarrow> int \<Rightarrow> int" where
  "bonus b n = (if b then n else 0)"

definition rank_adjustment :: "int \<Rightarrow> int" where
  "rank_adjustment r =
     (if r = - 1 then 3
      else if r > 10 then 2
      else if 6 \<le> r \<and> r \<le> 10 then 1
      else if r \<le> 3 then - 1
      else 0)"

definition clamp :: "int \<Rightarrow> int \<Rightarrow> int \<Rightarrow> int" where
  "clamp lo hi x = (if x < lo then lo else if x > hi then hi else x)"

definition resale_domains :: "string set" where
  "resale_domains = {''ticketmaster.com'', ''stubhub.com'', ''seatgeek.com'', ''vividseats.com''}"

definition score_spec :: "string \<Rightarrow> int \<Rightarrow> string list \<Rightarrow> int" where
  "score_spec kw r comps =
     clamp 3 10
       (5 + bonus (contains kw ''first time'' \<or> contains kw ''what to expect'') 3
          + bonus (contains kw ''parking'') 2
          + bonus (contains kw ''tickets'' \<or> contains kw ''cheap'') 2
          + bonus (contains kw ''seating'') 1
          + rank_adjustment r
          + bonus (\<exists>c \<in> set comps. \<exists>d \<in> resale_domains. contains c d) 1)"

text \<open>The team rank as the specification words it: the position of the first matching item.\<close>

fun first_match_from :: "serp_item list \<Rightarrow> string \<Rightarrow> nat \<Rightarrow> int" where
  "first_match_from [] team index = - 1"
| "first_match_from (item # rest) team index =
     (if isTeamSite (item_domain item) team then int index + 1
      else first_match_from rest team (index + 1))"

definition first_match_rank :: "serp_item list \<Rightarrow> string \<Rightarrow> int" where
  "first_match_rank its team = first_match_from its team 0"

text \<open>
  The measure of a set of draws, for the sets that occur here: a set that lies between
  the open and the closed interval with the same end points has the length of that
  interval.
\<close>

definition has_length :: "real set \<Rightarrow> real \<Rightarrow> bool" where
  "has_length S l \<longleftrightarrow> (\<exists>a b. a \<le> b \<and> {a<..<b} \<subseteq> S \<and> S \<subseteq> {a..b} \<and> l = b - a)"

definition with_draw :: "world \<Rightarrow> nat \<Rightarrow> real \<Rightarrow> world" where
  "with_draw w n r = w\<lparr>draws := (draws w)(n := r)\<rparr>"






text \<open>A keyword with an \<open>includes\<close> method: a string or an array.\<close>

fun has_includes :: "jvalue \<Rightarrow> bool" where
  "has_includes (JString s) = True"
| "has_includes (JArray xs) = True"
| "has_includes JOther = False"





section \<open>An example run\<close>

text \<open>
  A request for six keywords, a provider that answers the first four requests with a
  result of four items and then drops the connection, and a fixed sequence of random
  draws. The theorems below are instantiated at this run.
\<close>

definition demo_config :: config where
  "demo_config =
     \<lparr>baseUrl = ''https://api.dataforseo.com/v3'', login = Some ''login'', password = Some ''secret''\<rparr>"

definition no_password_config :: config where
  "no_password_config =
     \<lparr>baseUrl = ''https://api.dataforseo.com/v3'', login = Some ''login'', password = None\<rparr>"

definition demo_items :: "serp_item list" where
  "demo_items =
     [\<lparr>item_domain = Some ''bruins.com''\<rparr>, \<lparr>item_domain = Some ''stubhub.com''\<rparr>,
      \<lparr>item_domain = Some ''bostonglobe.com''\<rparr>, \<lparr>item_domain = Some ''espn.com''\<rparr>]"

definition demo_result :: api_result where
  "demo_result =
     \<lparr>status_code = 20000, status_message = ''Ok.'',
      tasks = Some [\<lparr>task_id = Some ''04171455-1535-0066'',
                     task_result = Some [\<lparr>result_items = Some demo_items,
                                          result_cost = Some (6 / 10000)\<rparr>]\<rparr>]\<rparr>"

definition ok_reply :: fetch_outcome where
  "ok_reply = Response True 200 ''OK'' (Some demo_result)"

definition demo_draws :: "real list" where
  "demo_draws = [1 / 2, 7 / 10, 3 / 10, 9 / 10, 1 / 4, 3 / 4, 1 / 10, 1 / 5, 4 / 5]"

text \<open>A world whose network gives the listed answers, in order, and then fails.\<close>

definition scripted_world :: "fetch_outcome list \<Rightarrow> world" where
  "scripted_world answers =
     \<lparr>draws = (\<lambda>n. if n < length demo_draws then demo_draws ! n else 1 / 2),
      drawn = 0,
      replies = (\<lambda>n rq. if n < length answers then answers ! n else Rejected ''socket hang up''),
      fetched = 0\<rparr>"

definition demo_world :: world where
  "demo_world = scripted_world [ok_reply, ok_reply, ok_reply, ok_reply]"

definition demo_keywords :: "jvalue list" where
  "demo_keywords =
     [JString ''bruins tickets'', JString ''bruins parking'', JString ''first time at td garden'',
      JString ''bruins seating chart'', JString ''bruins arena food'', JString ''bruins schedule'']"

definition demo_request :: request where
  "demo_request =
     \<lparr>req_teamName = Some ''Boston Bruins'', req_league = Some ''NHL'',
      req_keywords = Some demo_keywords\<rparr>"









text \<open>The records of the response to the example request, in the order of the response.\<close>

definition demo_first_time :: analysis where
  "demo_first_time =
     \<lparr>keyword = JString ''first time at td garden'', opportunity = 9,
        gapType = ''First-Timer Experience Gap'', teamRank = ''#10'',
        competitors = [''reddit.com'', ''tripadvisor.com'', ''hockeyforum.com''],
        contentSuggestion =
          \<lparr>title = ''Complete First-Timer's Hockey Guide'',
           format = ''FAQ-style guide with arena tips and terminology'',
           cta = ''Buy Official Tickets''\<rparr>,
        llmStrategy = ''Create conversational Q&A content optimized for voice search and AI assistants'',
        searchVolume = 250, isRealData = False, cost = 0\<rparr>"

definition demo_seating :: analysis where
  "demo_seating =
     \<lparr>keyword = JString ''bruins seating chart'', opportunity = 9,
        gapType = ''Venue Experience Gap'', teamRank = ''Not found'',
        competitors = [''reddit.com'', ''yelp.com'', ''hockeydb.com''],
        contentSuggestion =
          \<lparr>title = ''Interactive Arena Seating Guide'',
           format = ''Visual seating chart with ice view photos'',
           cta = ''Find Your Perfect Seats''\<rparr>,
        llmStrategy = ''Use structured data and local context for location-based AI search'',
        searchVolume = 70, isRealData = False, cost = 0\<rparr>"

definition demo_tickets :: analysis where
  "demo_tickets =
     \<lparr>keyword = JString ''bruins tickets'', opportunity = 7,
        gapType = ''Ticket Reseller Dominance'', teamRank = ''#3'',
        competitors = [''bruins.com'', ''stubhub.com'', ''bostonglobe.com''],
        contentSuggestion =
          \<lparr>title = ''Comprehensive Fan Guide'',
           format = ''Detailed FAQ with local tips'',
           cta = ''Get Tickets''\<rparr>,
        llmStrategy = ''Optimize with natural language and hockey-specific terminology for AI search'',
        searchVolume = 600, isRealData = True, cost = 6 / 10000\<rparr>"

definition demo_parking :: analysis where
  "demo_parking =
     \<lparr>keyword = JString ''bruins parking'', opportunity = 7,
        gapType = ''Arena Information Gap'', teamRank = ''#3'',
        competitors = [''bruins.com'', ''stubhub.com'', ''bostonglobe.com''],
        contentSuggestion =
          \<lparr>title = ''Ultimate Arena Parking Guide'',
           format = ''Interactive map with pricing and walking times'',
           cta = ''Reserve Parking & Tickets''\<rparr>,
        llmStrategy = ''Use structured data and local context for location-based AI search'',
        searchVolume = 310, isRealData = True, cost = 6 / 10000\<rparr>"

definition demo_food :: analysis where
  "demo_food =
     \<lparr>keyword = JString ''bruins arena food'', opportunity = 6,
        gapType = ''Venue Experience Gap'', teamRank = ''#9'',
        competitors = [''reddit.com'', ''yelp.com'', ''hockeydb.com''],
        contentSuggestion =
          \<lparr>title = ''Comprehensive Fan Guide'',
           format = ''Detailed FAQ with local tips'',
           cta = ''Get Tickets''\<rparr>,
        llmStrategy = ''Optimize with natural language and hockey-specific terminology for AI search'',
        searchVolume = 150, isRealData = False, cost = 0\<rparr>"

definition demo_response :: response where
  "demo_response =
     \<lparr>success = True, resp_teamName = ''Boston Bruins'', resp_league = Some ''NHL'',
      totalKeywords = 6,
      analyses = [demo_first_time, demo_seating, demo_tickets, demo_parking, demo_food],
      summary = \<lparr>highOpportunity = 4, totalSearchVolume = 1380, realDataCount = 2\<rparr>\<rparr>"


section \<open>Library functions of the host language\<close>

lemma str_includes_sublist: "str_includes s w \<longleftrightarrow> sublist w s"
  by (induction s) (auto simp: sublist_Cons_right)

lemma some_iff: "some xs f \<longleftrightarrow> (\<exists>x \<in> set xs. f x)"
  by (induction xs) auto

lemma arr_includes_iff: "arr_includes xs v \<longleftrightarrow> v \<in> set xs"
  by (induction xs) auto



section \<open>Gap type\<close>

text \<open>
  Claim C3. The gap-type classifier is the first-match-wins mapping of the specification:
  first-timer keywords, then parking keywords, then a competitor that is exactly one of
  the three named resale domains, then seating or arena keywords, then the default. In
  particular a keyword that contains \<open>parking\<close> and neither first-timer phrase is an
  \<open>Arena Information Gap\<close> whatever the competitors are.
\<close>

theorem getGapType_first_match:
  "getGapType kw comps = gap_type_spec kw comps \<and>
   (contains kw ''parking'' \<and> \<not> contains kw ''first time'' \<and> \<not> contains kw ''what to expect''
      \<longrightarrow> getGapType kw comps = ''Arena Information Gap'')"
  by (auto simp: getGapType_def getGapType_on_def gap_type_spec_def contains_def
      str_includes_sublist some_iff arr_includes_iff)

theorem getGapType_first_match_witness:
  "contains ''bruins parking'' ''parking'' \<and> \<not> contains ''bruins parking'' ''first time''
   \<and> \<not> contains ''bruins parking'' ''what to expect''
   \<and> getGapType ''bruins parking'' [''stubhub.com''] = ''Arena Information Gap''"
proof -
  have h: "contains ''bruins parking'' ''parking'' \<and> \<not> contains ''bruins parking'' ''first time''
     \<and> \<not> contains ''bruins parking'' ''what to expect''"
    by code_simp
  with getGapType_first_match [of "''bruins parking''" "[''stubhub.com'']"] show ?thesis
    by blast
qed



section \<open>Opportunity score\<close>

lemma keyword_bonuses_sum:
  "keyword_bonuses kw s =
     s + bonus (contains kw ''first time'' \<or> contains kw ''what to expect'') 3
       + bonus (contains kw ''parking'') 2
       + bonus (contains kw ''tickets'' \<or> contains kw ''cheap'') 2
       + bonus (contains kw ''seating'') 1"
  by (simp add: keyword_bonuses_def keyword_bonuses_on_def bonus_def contains_def
      str_includes_sublist Let_def)

lemma rank_adjust_sum: "rank_adjust r s = s + rank_adjustment r"
  by (simp add: rank_adjust_def rank_adjustment_def)

lemma hasTicketResellers_iff:
  "hasTicketResellers comps \<longleftrightarrow> (\<exists>c \<in> set comps. \<exists>d \<in> resale_domains. contains c d)"
  by (simp add: hasTicketResellers_def some_iff ticketResellers_def resale_domains_def
      contains_def str_includes_sublist)

lemma clamp_min_max: "min (max x 3) 10 = clamp 3 10 x"
  by (simp add: clamp_def)

lemma if_bonus: "(if b then s + n else s) = s + bonus b n"
  by (simp add: bonus_def)

lemma clamp_range: "3 \<le> clamp 3 10 x \<and> clamp 3 10 x \<le> 10"
  by (simp add: clamp_def)

lemma calculateOpportunityScore_spec: "calculateOpportunityScore kw r comps = score_spec kw r comps"
  unfolding calculateOpportunityScore_def calculateOpportunityScore_on_def
    keyword_bonuses_def [symmetric] score_spec_def Let_def keyword_bonuses_sum
    rank_adjust_sum hasTicketResellers_iff clamp_min_max if_bonus
  by (rule refl)

text \<open>
  Claim C4. For every keyword, integer team rank and competitor list the scorer returns
  exactly the base 5 plus the four keyword bonuses, the rank adjustment and the resale
  bonus, clamped into the range from 3 to 10.
\<close>

theorem calculateOpportunityScore_exact:
  "calculateOpportunityScore kw r comps = score_spec kw r comps
   \<and> 3 \<le> calculateOpportunityScore kw r comps \<and> calculateOpportunityScore kw r comps \<le> 10"
  unfolding calculateOpportunityScore_spec
  using clamp_range [of "5 + bonus (contains kw ''first time'' \<or> contains kw ''what to expect'') 3
          + bonus (contains kw ''parking'') 2
          + bonus (contains kw ''tickets'' \<or> contains kw ''cheap'') 2
          + bonus (contains kw ''seating'') 1
          + rank_adjustment r
          + bonus (\<exists>c \<in> set comps. \<exists>d \<in> resale_domains. contains c d) 1"]
  unfolding score_spec_def by simp

theorem calculateOpportunityScore_exact_witness:
  "calculateOpportunityScore ''bruins seating chart'' 7 [''www.stubhub.com'', ''nhl.com''] = 8"
proof -
  have "score_spec ''bruins seating chart'' 7 [''www.stubhub.com'', ''nhl.com''] = 8"
    by code_simp
  with calculateOpportunityScore_exact [of "''bruins seating chart''" 7 "[''www.stubhub.com'', ''nhl.com'']"]
  show ?thesis by simp
qed



section \<open>Team-site matcher and empty team words\<close>

lemma lower_char_space: "lower_char c = CHR '' '' \<longleftrightarrow> c = CHR '' ''"
  by (auto simp: lower_char_def split: option.splits if_splits)

lemma js_split_not_Nil: "js_split s sep \<noteq> []"
  by (induction s) (auto split: list.splits)

lemma js_split_toLowerCase:
  "js_split (toLowerCase s) (CHR '' '') = map toLowerCase (js_split s (CHR '' ''))"
proof (induction s)
  case Nil
  show ?case by (simp add: toLowerCase_def)
next
  case (Cons c cs)
  obtain p ps where ps: "js_split cs (CHR '' '') = p # ps"
    using js_split_not_Nil [of cs "CHR '' ''"] by (cases "js_split cs (CHR '' '')") auto
  with Cons show ?case
    by (simp add: toLowerCase_def lower_char_space)
qed

lemma empty_word_toLowerCase:
  "[] \<in> set (js_split (toLowerCase s) (CHR '' '')) \<longleftrightarrow> [] \<in> set (js_split s (CHR '' ''))"
  unfolding js_split_toLowerCase by (auto simp: toLowerCase_def)

lemma js_split_append:
  "js_split (a @ sep # b) sep = js_split a sep @ js_split b sep"
proof (induction a)
  case Nil
  show ?case by simp
next
  case (Cons c cs)
  obtain p ps where ps: "js_split cs sep = p # ps"
    using js_split_not_Nil [of cs sep] by (cases "js_split cs sep") auto
  with Cons show ?case by simp
qed

lemma empty_word_cases:
  assumes "prefix [sep] s \<or> suffix [sep] s \<or> sublist [sep, sep] s"
  shows "[] \<in> set (js_split s sep)"
proof -
  from assms consider (p) b where "s = sep # b" | (s) a where "s = a @ [sep]"
    | (d) a b where "s = a @ sep # sep # b"
    by (auto simp: prefix_def suffix_def sublist_def)
  then show ?thesis
  proof cases
    case p then show ?thesis by simp
  next
    case s then show ?thesis by (simp add: js_split_append)
  next
    case d then show ?thesis by (simp add: js_split_append)
  qed
qed

lemma str_includes_Nil: "str_includes d []"
  by (cases d) simp_all

text \<open>
  Claim C10. When splitting the team name on single spaces produces an empty word, the
  matcher accepts every non-empty domain, since the empty word is a substring of every
  string, and still rejects an absent or empty domain. A leading, a trailing or a doubled
  space produces such a word.
\<close>

theorem isTeamSite_empty_word:
  "([] \<in> set (js_split team (CHR '' '')) \<longrightarrow> isTeamSite dmn team = truthy dmn)
   \<and> (prefix '' '' team \<or> suffix '' '' team \<or> sublist [CHR '' '', CHR '' ''] team
        \<longrightarrow> [] \<in> set (js_split team (CHR '' '')))"
proof (intro conjI impI)
  assume e: "[] \<in> set (js_split team (CHR '' ''))"
  show "isTeamSite dmn team = truthy dmn"
  proof (cases dmn)
    case None
    then show ?thesis by (simp add: isTeamSite_def)
  next
    case (Some d)
    from e have "[] \<in> set (js_split (toLowerCase team) (CHR '' ''))"
      by (simp add: empty_word_toLowerCase)
    then have "\<exists>word \<in> set (js_split (toLowerCase team) (CHR '' '')). str_includes (toLowerCase d) word"
      using str_includes_Nil by blast
    with Some show ?thesis
      by (simp add: isTeamSite_def some_iff)
  qed
next
  assume "prefix '' '' team \<or> suffix '' '' team \<or> sublist [CHR '' '', CHR '' ''] team"
  then show "[] \<in> set (js_split team (CHR '' ''))"
    by (rule empty_word_cases)
qed

theorem isTeamSite_empty_word_witness:
  "prefix '' '' '' Boston'' \<and> [] \<in> set (js_split '' Boston'' (CHR '' ''))
   \<and> isTeamSite (Some ''nhl.com'') '' Boston''
   \<and> \<not> isTeamSite (Some '''') '' Boston''
   \<and> \<not> isTeamSite None '' Boston''"
proof -
  have p: "prefix '' '' '' Boston''" by simp
  with isTeamSite_empty_word [of "'' Boston''" None]
  have e: "[] \<in> set (js_split '' Boston'' (CHR '' ''))" by blast
  from e isTeamSite_empty_word [of "'' Boston''" "Some ''nhl.com''"]
  have a: "isTeamSite (Some ''nhl.com'') '' Boston''" by simp
  from e isTeamSite_empty_word [of "'' Boston''" "Some ''''"]
  have b: "\<not> isTeamSite (Some '''') '' Boston''" by simp
  from e isTeamSite_empty_word [of "'' Boston''" None]
  have c: "\<not> isTeamSite None '' Boston''" by simp
  from p e a b c show ?thesis by blast
qed


section \<open>Team rank on the real-data path\<close>

text \<open>
  The \<open>forEach\<close> loop has no way to stop and assigns \<open>teamRank\<close> at every matching
  item, so the last matching item decides.
\<close>

lemma forEach_teamRank_snoc:
  "forEach_teamRank (its @ [item]) team index rank =
     (if truthy (item_domain item) \<and> isTeamSite (item_domain item) team
      then int (index + length its) + 1
      else forEach_teamRank its team index rank)"
  by (induction its arbitrary: index rank) auto

text \<open>
  Claim C1. The team rank of a real-data record should be the position of the first
  result item that matches the team. For the team \<open>Boston Bruins\<close> and the result
  domains \<open>bruins.com\<close>, \<open>stubhub.com\<close>, \<open>bostonglobe.com\<close>, \<open>espn.com\<close> the first
  match is at position 1; the code computes 3 and the record shows \<open>#3\<close>.
\<close>

theorem findTeamRank_takes_last_match:
  "findTeamRank demo_items ''Boston Bruins'' = 3
   \<and> first_match_rank demo_items ''Boston Bruins'' = 1
   \<and> fst (analyzeKeyword demo_config ''Boston Bruins'' (JString ''bruins tickets'') 0 demo_world)
       = Inr demo_tickets
   \<and> teamRank demo_tickets = ''#3''"
  by code_simp


section \<open>Simulated team rank\<close>

lemma simulatedTeamRank_fst:
  "fst (simulatedTeamRank w) =
     (if draws w (drawn w) > 6 / 10 then - 1 else \<lfloor>draws w (drawn w + 1) * 10\<rfloor> + 1)"
  by (simp add: simulatedTeamRank_def Math_random_def Let_def)

lemma not_found_draws:
  assumes "0 \<le> draws w (drawn w + 1)"
  shows "{r. 0 \<le> r \<and> r < 1 \<and> fst (simulatedTeamRank (with_draw w (drawn w) r)) = - 1} = {6 / 10 <..< 1}"
proof -
  have "0 \<le> \<lfloor>draws w (drawn w + 1) * 10\<rfloor>"
    using assms by simp
  then have "\<lfloor>draws w (drawn w + 1) * 10\<rfloor> + 1 \<noteq> - 1" by linarith
  then show ?thesis
    by (auto simp: simulatedTeamRank_fst with_draw_def)
qed

lemma has_length_open: "a \<le> b \<Longrightarrow> has_length {a <..< b} (b - a)"
  unfolding has_length_def by (intro exI [of _ a] exI [of _ b]) auto

lemma has_length_half_open: "a \<le> b \<Longrightarrow> has_length {a ..< b} (b - a)"
  unfolding has_length_def by (intro exI [of _ a] exI [of _ b]) auto

lemma has_length_upper:
  assumes "has_length S l" and "S \<subseteq> {c <..< d}" and "0 < l"
  shows "l \<le> d - c"
proof -
  from assms(1) obtain a b where ab: "a \<le> b" "{a<..<b} \<subseteq> S" "l = b - a"
    unfolding has_length_def by blast
  show ?thesis
  proof (rule ccontr)
    assume "\<not> l \<le> d - c"
    then have gt: "d - c < b - a" using ab(3) by simp
    have "a < b" using ab(3) assms(3) by simp
    have "c \<le> a"
    proof (rule ccontr)
      assume "\<not> c \<le> a"
      then have "a < c" by simp
      define x where "x = (a + min b c) / 2"
      have "a < x" "x < b" "x \<le> c" using \<open>a < b\<close> \<open>a < c\<close> by (auto simp: x_def min_def)
      then have "x \<in> S" using ab(2) by auto
      then show False using assms(2) \<open>x \<le> c\<close> by auto
    qed
    moreover have "b \<le> d"
    proof (rule ccontr)
      assume "\<not> b \<le> d"
      then have "d < b" by simp
      define x where "x = (b + max a d) / 2"
      have "a < x" "x < b" "d \<le> x" using \<open>a < b\<close> \<open>d < b\<close> by (auto simp: x_def max_def)
      then have "x \<in> S" using ab(2) by auto
      then show False using assms(2) \<open>d \<le> x\<close> by auto
    qed
    ultimately show False using gt by simp
  qed
qed

text \<open>
  Claim C2 as stated: the draws for which the simulated rank is the sentinel \<open>-1\<close> have
  measure 0.6. They are the draws above 0.6, an interval of length 0.4.
\<close>

theorem not_found_probability_counterexample:
  "\<not> has_length {r. 0 \<le> r \<and> r < 1 \<and> fst (simulatedTeamRank (with_draw demo_world 0 r)) = - 1} (6 / 10)"
proof
  assume h: "has_length {r. 0 \<le> r \<and> r < 1 \<and> fst (simulatedTeamRank (with_draw demo_world 0 r)) = - 1} (6 / 10)"
  have d: "drawn demo_world = 0" "0 \<le> draws demo_world (drawn demo_world + 1)"
    by (simp_all add: demo_world_def scripted_world_def demo_draws_def)
  from not_found_draws [OF d(2)] d(1)
  have "{r. 0 \<le> r \<and> r < 1 \<and> fst (simulatedTeamRank (with_draw demo_world 0 r)) = - 1} \<subseteq> {6 / 10 <..< 1}"
    by simp
  from has_length_upper [OF h this] show False by simp
qed

lemma rank_draws:
  assumes "draws w (drawn w) \<le> 6 / 10"
  shows "{r. 0 \<le> r \<and> r < 1 \<and> fst (simulatedTeamRank (with_draw w (drawn w + 1) r)) = k}
     = (if 1 \<le> k \<and> k \<le> 10 then {(of_int k - 1) / 10 ..< of_int k / 10} else {})"
proof -
  define lo hi :: real where "lo = (of_int k - 1) / 10" and "hi = of_int k / 10"
  have *: "(\<lfloor>r * 10\<rfloor> + 1 = k) \<longleftrightarrow> lo \<le> r \<and> r < hi" for r :: real
  proof -
    have "(\<lfloor>r * 10\<rfloor> + 1 = k) \<longleftrightarrow> \<lfloor>r * 10\<rfloor> = k - 1" by auto
    also have "\<dots> \<longleftrightarrow> of_int (k - 1) \<le> r * 10 \<and> r * 10 < of_int (k - 1) + 1"
      by (rule floor_eq_iff)
    also have "\<dots> \<longleftrightarrow> lo \<le> r \<and> r < hi"
      by (auto simp: field_simps lo_def hi_def)
    finally show ?thesis .
  qed
  have f: "fst (simulatedTeamRank (with_draw w (drawn w + 1) r)) = \<lfloor>r * 10\<rfloor> + 1" for r
    using assms by (simp add: simulatedTeamRank_fst with_draw_def)
  have S: "{r. 0 \<le> r \<and> r < 1 \<and> fst (simulatedTeamRank (with_draw w (drawn w + 1) r)) = k}
      = {r. 0 \<le> r \<and> r < 1 \<and> lo \<le> r \<and> r < hi}"
    unfolding f * ..
  show ?thesis
  proof (cases "1 \<le> k \<and> k \<le> 10")
    case True
    then have "0 \<le> lo" "hi \<le> 1" by (auto simp: lo_def hi_def)
    then have I: "{r. 0 \<le> r \<and> r < 1 \<and> lo \<le> r \<and> r < hi} = {lo ..< hi}" by auto
    show ?thesis unfolding S I using True by (simp add: lo_def hi_def)
  next
    case False
    then have "k \<le> 0 \<or> 11 \<le> k" by auto
    then have "hi \<le> 0 \<or> 1 \<le> lo" by (auto simp: lo_def hi_def)
    then have E: "{r. 0 \<le> r \<and> r < 1 \<and> lo \<le> r \<and> r < hi} = {}" by auto
    show ?thesis unfolding S E using False by simp
  qed
qed

text \<open>
  Claim C2, amended. With draws in \<open>[0, 1)\<close>, the simulated team rank is \<open>-1\<close> exactly
  when the first draw is above 0.6, a set of draws of measure 0.4; otherwise it is an
  integer from 1 to 10, and each of these ten values comes from a set of second draws of
  measure 0.1.
\<close>

theorem simulatedTeamRank_distribution:
  assumes "0 \<le> draws w (drawn w + 1)" and "draws w (drawn w + 1) < 1"
  shows "(fst (simulatedTeamRank w) = - 1 \<longleftrightarrow> draws w (drawn w) > 6 / 10)
     \<and> has_length {r. 0 \<le> r \<and> r < 1 \<and> fst (simulatedTeamRank (with_draw w (drawn w) r)) = - 1} (4 / 10)
     \<and> (draws w (drawn w) \<le> 6 / 10 \<longrightarrow>
          1 \<le> fst (simulatedTeamRank w) \<and> fst (simulatedTeamRank w) \<le> 10
          \<and> (\<forall>k \<in> {1..10}.
                has_length {r. 0 \<le> r \<and> r < 1 \<and> fst (simulatedTeamRank (with_draw w (drawn w + 1) r)) = k}
                  (1 / 10)))"
proof (intro conjI impI ballI)
  define t where "t = \<lfloor>draws w (drawn w + 1) * 10\<rfloor>"
  have fl: "0 \<le> t" "t < 10"
    using assms by (simp_all add: t_def floor_less_iff)
  have rank: "fst (simulatedTeamRank w) = (if draws w (drawn w) > 6 / 10 then - 1 else t + 1)"
    by (simp only: simulatedTeamRank_fst t_def)
  from fl show "fst (simulatedTeamRank w) = - 1 \<longleftrightarrow> draws w (drawn w) > 6 / 10"
    by (auto simp: rank)
  show "has_length {r. 0 \<le> r \<and> r < 1 \<and> fst (simulatedTeamRank (with_draw w (drawn w) r)) = - 1} (4 / 10)"
    using has_length_open [of "6 / 10" 1] by (simp add: not_found_draws [OF assms(1)])
  assume le: "draws w (drawn w) \<le> 6 / 10"
  from fl le show "1 \<le> fst (simulatedTeamRank w)" "fst (simulatedTeamRank w) \<le> 10"
    by (simp_all add: rank)
  fix k :: int assume "k \<in> {1..10}"
  then have k: "1 \<le> k \<and> k \<le> 10" by simp
  have len: "real_of_int k / 10 - (real_of_int k - 1) / 10 = 1 / 10"
    by (simp add: diff_divide_distrib)
  have "has_length {(real_of_int k - 1) / 10 ..< real_of_int k / 10}
      (real_of_int k / 10 - (real_of_int k - 1) / 10)"
    by (rule has_length_half_open) simp
  then have hl: "has_length {(real_of_int k - 1) / 10 ..< real_of_int k / 10} (1 / 10)"
    by (simp only: len)
  show "has_length {r. 0 \<le> r \<and> r < 1 \<and> fst (simulatedTeamRank (with_draw w (drawn w + 1) r)) = k} (1 / 10)"
    unfolding rank_draws [OF le] using k hl by simp
qed

theorem simulatedTeamRank_distribution_witness:
  "0 \<le> draws demo_world (drawn demo_world + 1) \<and> draws demo_world (drawn demo_world + 1) < 1
   \<and> draws demo_world (drawn demo_world) \<le> 6 / 10
   \<and> has_length {r. 0 \<le> r \<and> r < 1
         \<and> fst (simulatedTeamRank (with_draw demo_world (drawn demo_world) r)) = - 1} (4 / 10)
   \<and> fst (simulatedTeamRank demo_world) = 8
   \<and> has_length {r. 0 \<le> r \<and> r < 1
         \<and> fst (simulatedTeamRank (with_draw demo_world (drawn demo_world + 1) r)) = 8} (1 / 10)"
proof -
  have d: "0 \<le> draws demo_world (drawn demo_world + 1)" "draws demo_world (drawn demo_world + 1) < 1"
    "draws demo_world (drawn demo_world) \<le> 6 / 10"
    by (simp_all add: demo_world_def scripted_world_def demo_draws_def)
  have r: "fst (simulatedTeamRank demo_world) = 8"
    by code_simp
  have k: "(8::int) \<in> {1..10}" by simp
  from simulatedTeamRank_distribution [OF d(1,2)] d r k show ?thesis
    by blast
qed


section \<open>The keyword loop and the sort\<close>

text \<open>
  A turn of the loop gives a record exactly for a keyword with an \<open>includes\<close> method and
  throws a \<open>TypeError\<close> for any other; the record carries the keyword, and it can only
  be marked as real data at an index below 3 with both credentials set.
\<close>

lemma createSimulatedAnalysis_Inr:
  "has_includes kw \<Longrightarrow> \<exists>a. fst (createSimulatedAnalysis kw team w) = Inr a"
  by (cases kw) (simp_all add: createSimulatedAnalysis_def Let_def split: prod.splits)



lemma analyzeKeyword_Inr:
  assumes "has_includes kw"
  shows "\<exists>a. fst (analyzeKeyword cfg team kw i w) = Inr a"
proof (cases "i < maxRealAnalyses \<and> truthy (login cfg) \<and> truthy (password cfg)")
  case False
  with createSimulatedAnalysis_Inr [OF assms, of team w] show ?thesis
    by (auto simp: analyzeKeyword_def)
next
  case True
  obtain r w1 where r: "realAttempt cfg kw team w = (r, w1)"
    by (cases "realAttempt cfg kw team w")
  show ?thesis
  proof (cases r)
    case (Inl e)
    with True r createSimulatedAnalysis_Inr [OF assms, of team w1] show ?thesis
      by (simp add: analyzeKeyword_def)
  next
    case (Inr a)
    with True r show ?thesis
      by (simp add: analyzeKeyword_def)
  qed
qed




lemma analyzeKeyword_real:
  "fst (analyzeKeyword cfg team kw i w) = Inr a \<Longrightarrow> isRealData a
     \<Longrightarrow> i < 3 \<and> truthy (login cfg) \<and> truthy (password cfg)"
  by (auto simp: analyzeKeyword_def createSimulatedAnalysis_def maxRealAnalyses_def
      Let_def split: prod.splits if_splits option.splits)

lemma keywordLoop_done:
  "\<not> i < min 5 (length kws) \<Longrightarrow> keywordLoop cfg team kws i acc w = (Inr acc, w)"
  by (subst keywordLoop.simps) (simp only: if_False)

lemma keywordLoop_step:
  "i < min 5 (length kws) \<Longrightarrow> analyzeKeyword cfg team (kws ! i) i w = (Inr a, w')
     \<Longrightarrow> keywordLoop cfg team kws i acc w = keywordLoop cfg team kws (i + 1) (acc @ [a]) w'"
  by (subst keywordLoop.simps) (simp only: if_True prod.case sum.case)

lemma keywordLoop_throw:
  "i < min 5 (length kws) \<Longrightarrow> analyzeKeyword cfg team (kws ! i) i w = (Inl e, w')
     \<Longrightarrow> keywordLoop cfg team kws i acc w = (Inl e, w')"
  by (subst keywordLoop.simps) (simp only: if_True prod.case sum.case)

lemma drop_take_step:
  "i < min 5 (length kws) \<Longrightarrow> drop i (take 5 kws) = kws ! i # drop (Suc i) (take 5 kws)"
  by (simp add: Cons_nth_drop_Suc [symmetric])



lemma keywordLoop_real_count:
  "fst (keywordLoop cfg team kws i acc w) = Inr res
     \<Longrightarrow> length (filter isRealData res) \<le> length (filter isRealData acc) + (3 - i)"
proof (induction cfg team kws i acc w rule: keywordLoop.induct)
  case (1 cfg team kws i acc w)
  show ?case
  proof (cases "i < min 5 (length kws)")
    case True
    obtain r w' where aw: "analyzeKeyword cfg team (kws ! i) i w = (r, w')"
      by (cases "analyzeKeyword cfg team (kws ! i) i w")
    show ?thesis
    proof (cases r)
      case (Inl e)
      with keywordLoop_throw [OF True, of cfg team w e w' acc] aw "1.prems" show ?thesis
        by simp
    next
      case (Inr a)
      with aw have aw': "analyzeKeyword cfg team (kws ! i) i w = (Inr a, w')" by simp
      from analyzeKeyword_real [of cfg team "kws ! i" i w a] aw' have "isRealData a \<Longrightarrow> i < 3"
        by simp
      then have s: "length (filter isRealData (acc @ [a])) + (3 - (i + 1))
          \<le> length (filter isRealData acc) + (3 - i)"
        by (cases "isRealData a") auto
      from "1.prems" have "fst (keywordLoop cfg team kws (i + 1) (acc @ [a]) w') = Inr res"
        by (simp add: keywordLoop_step [OF True aw'])
      from "1.IH" [OF True aw' [symmetric] refl this] s show ?thesis
        by simp
    qed
  next
    case False
    with "1.prems" show ?thesis
      by (simp add: keywordLoop_done [OF False])
  qed
qed

lemma keywordLoop_no_credentials:
  "\<not> truthy (login cfg) \<or> \<not> truthy (password cfg)
     \<Longrightarrow> fst (keywordLoop cfg team kws i acc w) = Inr res
     \<Longrightarrow> filter isRealData res = filter isRealData acc"
proof (induction cfg team kws i acc w rule: keywordLoop.induct)
  case (1 cfg team kws i acc w)
  show ?case
  proof (cases "i < min 5 (length kws)")
    case True
    obtain r w' where aw: "analyzeKeyword cfg team (kws ! i) i w = (r, w')"
      by (cases "analyzeKeyword cfg team (kws ! i) i w")
    show ?thesis
    proof (cases r)
      case (Inl e)
      with keywordLoop_throw [OF True, of cfg team w e w' acc] aw "1.prems"(2) show ?thesis
        by simp
    next
      case (Inr a)
      with aw have aw': "analyzeKeyword cfg team (kws ! i) i w = (Inr a, w')" by simp
      from analyzeKeyword_real [of cfg team "kws ! i" i w a] aw' "1.prems"(1)
      have na: "\<not> isRealData a" by auto
      from "1.prems"(2) have "fst (keywordLoop cfg team kws (i + 1) (acc @ [a]) w') = Inr res"
        by (simp add: keywordLoop_step [OF True aw'])
      from "1.IH" [OF True aw' [symmetric] refl "1.prems"(1) this] na show ?thesis
        by simp
    qed
  next
    case False
    with "1.prems"(2) show ?thesis
      by (simp add: keywordLoop_done [OF False])
  qed
qed

text \<open>
  The loop ends with the collected records when every processed keyword has an
  \<open>includes\<close> method, and with the \<open>TypeError\<close> of the first one that has not.
\<close>

lemma keywordLoop_Inr:
  "list_all has_includes (drop i (take 5 kws))
     \<Longrightarrow> \<exists>res. fst (keywordLoop cfg team kws i acc w) = Inr res"
proof (induction cfg team kws i acc w rule: keywordLoop.induct)
  case (1 cfg team kws i acc w)
  show ?case
  proof (cases "i < min 5 (length kws)")
    case True
    from "1.prems" drop_take_step [OF True]
    have h: "has_includes (kws ! i)" and t: "list_all has_includes (drop (i + 1) (take 5 kws))"
      by simp_all
    from analyzeKeyword_Inr [OF h, of cfg team i w]
    obtain a w' where aw: "analyzeKeyword cfg team (kws ! i) i w = (Inr a, w')"
      by (cases "analyzeKeyword cfg team (kws ! i) i w") auto
    from "1.IH" [OF True aw [symmetric] refl t] show ?thesis
      by (simp add: keywordLoop_step [OF True aw])
  next
    case False
    show ?thesis
      by (simp add: keywordLoop_done [OF False])
  qed
qed


text \<open>
  The sort: a permutation of its input, descending in opportunity, and stable, in that
  the records of any one opportunity value keep their relative order.
\<close>

lemma mset_insert_by: "mset (insert_by cmp x ys) = add_mset x (mset ys)"
  by (induction ys) auto

lemma mset_array_sort: "mset (array_sort cmp xs) = mset xs"
  by (induction xs) (auto simp: array_sort_def mset_insert_by)

lemma set_insert_by: "set (insert_by cmp x ys) = insert x (set ys)"
  by (induction ys) auto

lemma sorted_insert_by:
  "sorted_wrt (\<lambda>a b. opportunity a \<ge> opportunity b) ys
     \<Longrightarrow> sorted_wrt (\<lambda>a b. opportunity a \<ge> opportunity b) (insert_by by_opportunity x ys)"
  by (induction ys) (auto simp: set_insert_by by_opportunity_def)

lemma sorted_array_sort:
  "sorted_wrt (\<lambda>a b. opportunity a \<ge> opportunity b) (array_sort by_opportunity xs)"
proof (induction xs)
  case Nil
  show ?case by (simp add: array_sort_def)
next
  case (Cons x xs)
  from sorted_insert_by [OF Cons] show ?case by (simp add: array_sort_def)
qed

lemma filter_insert_by:
  "filter (\<lambda>a. opportunity a = k) (insert_by by_opportunity x ys)
     = (if opportunity x = k then x # filter (\<lambda>a. opportunity a = k) ys
        else filter (\<lambda>a. opportunity a = k) ys)"
  by (induction ys) (auto simp: by_opportunity_def)

lemma stable_array_sort:
  "filter (\<lambda>a. opportunity a = k) (array_sort by_opportunity xs)
     = filter (\<lambda>a. opportunity a = k) xs"
proof (induction xs)
  case Nil
  show ?case by (simp add: array_sort_def)
next
  case (Cons x xs)
  have "array_sort by_opportunity (x # xs) = insert_by by_opportunity x (array_sort by_opportunity xs)"
    by (simp add: array_sort_def)
  with Cons show ?case by (simp add: filter_insert_by)
qed


lemma filter_length_array_sort: "length (filter P (array_sort cmp xs)) = length (filter P xs)"
proof -
  have "mset (filter P (array_sort cmp xs)) = mset (filter P xs)"
    by (simp add: mset_array_sort)
  then show ?thesis by (metis size_mset)
qed

lemma foldl_sum: "foldl (\<lambda>sum a. sum + f a) (s::int) xs = s + sum_list (map f xs)"
  by (induction xs arbitrary: s) simp_all

text \<open>The handler's reply in terms of the loop's result.\<close>

lemma analyze_Status200:
  assumes "fst (analyze cfg req w) = Status200 resp"
  shows "\<exists>team kws collected. req_teamName req = Some team \<and> team \<noteq> []
     \<and> req_keywords req = Some kws
     \<and> fst (keywordLoop cfg team kws 0 [] w) = Inr collected
     \<and> resp = \<lparr>success = True, resp_teamName = team, resp_league = req_league req,
               totalKeywords = length kws,
               analyses = array_sort by_opportunity collected,
               summary = makeSummary (array_sort by_opportunity collected)\<rparr>"
  using assms
  by (auto simp: analyze_def Let_def split: option.splits if_splits prod.splits sum.splits)

lemma analyze_collected:
  assumes "req_teamName req = Some team" and "team \<noteq> []" and "req_keywords req = Some kws"
    and "fst (keywordLoop cfg team kws 0 [] w) = Inr collected"
  shows "fst (analyze cfg req w)
     = Status200 \<lparr>success = True, resp_teamName = team, resp_league = req_league req,
               totalKeywords = length kws,
               analyses = array_sort by_opportunity collected,
               summary = makeSummary (array_sort by_opportunity collected)\<rparr>"
  using assms by (cases "keywordLoop cfg team kws 0 [] w") (simp add: analyze_def Let_def)



section \<open>The example run, evaluated\<close>

lemma demo_run: "fst (analyze demo_config demo_request demo_world) = Status200 demo_response"
  by code_simp

lemma demo_collected:
  "fst (keywordLoop demo_config ''Boston Bruins'' demo_keywords 0 [] demo_world)
     = Inr [demo_tickets, demo_parking, demo_first_time, demo_seating, demo_food]"
  by code_simp

lemma demo_request_fields:
  "req_teamName demo_request = Some ''Boston Bruins''" "req_keywords demo_request = Some demo_keywords"
  by (simp_all add: demo_request_def)

lemma demo_keywords_strings: "list_all has_includes (take 5 demo_keywords)"
  by (simp add: demo_keywords_def)



section \<open>Response summary\<close>

text \<open>
  Claim C8. In every successful response the summary is computed from the final records:
  the total search volume is the sum of their search volumes, the high-opportunity count
  is the number of records with opportunity at least 7, and the real-data count is the
  number of records marked as real data.
\<close>

theorem summary_exact:
  assumes "fst (analyze cfg req w) = Status200 resp"
  shows "totalSearchVolume (summary resp) = sum_list (map searchVolume (analyses resp))
     \<and> highOpportunity (summary resp)
         = card {i. i < length (analyses resp) \<and> opportunity (analyses resp ! i) \<ge> 7}
     \<and> realDataCount (summary resp)
         = card {i. i < length (analyses resp) \<and> isRealData (analyses resp ! i)}"
proof -
  from analyze_Status200 [OF assms] have "summary resp = makeSummary (analyses resp)"
    by auto
  then show ?thesis
    by (simp add: makeSummary_def foldl_sum length_filter_conv_card)
qed

theorem summary_exact_witness:
  "fst (analyze demo_config demo_request demo_world) = Status200 demo_response
   \<and> totalSearchVolume (summary demo_response) = sum_list (map searchVolume (analyses demo_response))
   \<and> totalSearchVolume (summary demo_response) = 1380
   \<and> highOpportunity (summary demo_response)
       = card {i. i < length (analyses demo_response) \<and> opportunity (analyses demo_response ! i) \<ge> 7}
   \<and> highOpportunity (summary demo_response) = 4
   \<and> realDataCount (summary demo_response)
       = card {i. i < length (analyses demo_response) \<and> isRealData (analyses demo_response ! i)}
   \<and> realDataCount (summary demo_response) = 2"
proof -
  have "totalSearchVolume (summary demo_response) = 1380"
    "highOpportunity (summary demo_response) = 4" "realDataCount (summary demo_response) = 2"
    by (simp_all add: demo_response_def)
  with summary_exact [OF demo_run] demo_run show ?thesis
    by simp
qed


section \<open>Cap on real-data records\<close>

text \<open>
  Claim C6. For every valid request at most 3 records of the response are marked as real
  data, however many keywords are submitted; when the login or the password is missing,
  none is.
\<close>

theorem real_data_cap:
  assumes "fst (analyze cfg req w) = Status200 resp"
  shows "length (filter isRealData (analyses resp)) \<le> 3
     \<and> (\<not> truthy (login cfg) \<or> \<not> truthy (password cfg)
          \<longrightarrow> filter isRealData (analyses resp) = [])"
proof -
  from analyze_Status200 [OF assms] obtain team kws collected where
    c: "fst (keywordLoop cfg team kws 0 [] w) = Inr collected"
    and a: "analyses resp = array_sort by_opportunity collected"
    by auto
  have "length (filter isRealData (analyses resp)) \<le> 3"
    using keywordLoop_real_count [OF c]
    by (simp add: a filter_length_array_sort)
  moreover have "filter isRealData (analyses resp) = []"
    if "\<not> truthy (login cfg) \<or> \<not> truthy (password cfg)"
    using keywordLoop_no_credentials [OF that c]
      filter_length_array_sort [of isRealData by_opportunity collected]
    by (simp add: a)
  ultimately show ?thesis by blast
qed

theorem real_data_cap_witness:
  "fst (analyze demo_config demo_request demo_world) = Status200 demo_response
   \<and> length (filter isRealData (analyses demo_response)) \<le> 3
   \<and> map isRealData (analyses demo_response) = [False, False, True, True, False]
   \<and> \<not> truthy (password no_password_config)
   \<and> (\<exists>resp. fst (analyze no_password_config demo_request demo_world) = Status200 resp
          \<and> filter isRealData (analyses resp) = [])"
proof -
  have m: "map isRealData (analyses demo_response) = [False, False, True, True, False]"
    by code_simp
  have p: "\<not> truthy (password no_password_config)"
    by (simp add: no_password_config_def)
  from keywordLoop_Inr [of 0 demo_keywords no_password_config "''Boston Bruins''" "[]" demo_world]
    demo_keywords_strings
  obtain collected where
    "fst (keywordLoop no_password_config ''Boston Bruins'' demo_keywords 0 [] demo_world) = Inr collected"
    by auto
  from analyze_collected [OF demo_request_fields(1) _ demo_request_fields(2) this]
  obtain resp where r: "fst (analyze no_password_config demo_request demo_world) = Status200 resp"
    by simp
  from real_data_cap [OF r] p have "filter isRealData (analyses resp) = []"
    by blast
  with r real_data_cap [OF demo_run] demo_run m p show ?thesis
    by blast
qed


section \<open>Order of the response\<close>

text \<open>
  Claim C7. In every successful response the analyses are sorted by descending
  opportunity, and the sort is stable: for each opportunity value, the records with that
  value appear in the order in which the keyword loop collected them.
\<close>

theorem analyses_sorted_stable:
  assumes "fst (analyze cfg req w) = Status200 resp"
    and "req_teamName req = Some team" and "req_keywords req = Some kws"
  shows "sorted_wrt (\<lambda>a b. opportunity a \<ge> opportunity b) (analyses resp)
     \<and> (\<exists>collected. fst (keywordLoop cfg team kws 0 [] w) = Inr collected
           \<and> (\<forall>k. filter (\<lambda>a. opportunity a = k) (analyses resp)
                   = filter (\<lambda>a. opportunity a = k) collected))"
proof -
  from analyze_Status200 [OF assms(1)] assms(2,3) obtain collected where
    c: "fst (keywordLoop cfg team kws 0 [] w) = Inr collected"
    and a: "analyses resp = array_sort by_opportunity collected"
    by auto
  show ?thesis
    unfolding a using c by (simp add: sorted_array_sort stable_array_sort)
qed

theorem analyses_sorted_stable_witness:
  "fst (analyze demo_config demo_request demo_world) = Status200 demo_response
   \<and> sorted_wrt (\<lambda>a b. opportunity a \<ge> opportunity b) (analyses demo_response)
   \<and> map opportunity (analyses demo_response) = [9, 9, 7, 7, 6]
   \<and> fst (keywordLoop demo_config ''Boston Bruins'' demo_keywords 0 [] demo_world)
       = Inr [demo_tickets, demo_parking, demo_first_time, demo_seating, demo_food]
   \<and> filter (\<lambda>a. opportunity a = 9) (analyses demo_response)
       = filter (\<lambda>a. opportunity a = 9)
           [demo_tickets, demo_parking, demo_first_time, demo_seating, demo_food]
   \<and> filter (\<lambda>a. opportunity a = 9) (analyses demo_response) = [demo_first_time, demo_seating]
   \<and> filter (\<lambda>a. opportunity a = 7) (analyses demo_response)
       = filter (\<lambda>a. opportunity a = 7)
           [demo_tickets, demo_parking, demo_first_time, demo_seating, demo_food]
   \<and> filter (\<lambda>a. opportunity a = 7) (analyses demo_response) = [demo_tickets, demo_parking]"
proof -
  have o: "map opportunity (analyses demo_response) = [9, 9, 7, 7, 6]"
    by code_simp
  have k: "filter (\<lambda>a. opportunity a = 9) (analyses demo_response) = [demo_first_time, demo_seating]"
    "filter (\<lambda>a. opportunity a = 7) (analyses demo_response) = [demo_tickets, demo_parking]"
    by code_simp+
  from analyses_sorted_stable [OF demo_run demo_request_fields] demo_collected
  have "sorted_wrt (\<lambda>a b. opportunity a \<ge> opportunity b) (analyses demo_response)"
    and "\<forall>k. filter (\<lambda>a. opportunity a = k) (analyses demo_response)
           = filter (\<lambda>a. opportunity a = k)
               [demo_tickets, demo_parking, demo_first_time, demo_seating, demo_food]"
    by auto
  with demo_run demo_collected o k show ?thesis
    by blast
qed


section \<open>One record per processed keyword\<close>





section \<open>Provider failures and the fallback\<close>












end
